theory Spec2Isabelle
  imports Complex_Main
begin

section \<open>Values of a parsed JSON request body\<close>

text \<open>
  The handlers of \<^verbatim>\<open>src/app.js\<close> read \<^verbatim>\<open>req.body\<close> after
  \<^verbatim>\<open>bodyParser.json()\<close> (line 6) has parsed it, so a body is a JavaScript value built
  from JSON. Numbers are doubles: every finite double is a rational, and the comparisons
  of the handler (with 2, 16 and 100) are exact on them.
\<close>

datatype jsnum = NaN | NegInf | Fin rat | PosInf

datatype jsval =
    JUndefined
  | JNull
  | JBool bool
  | JNumber jsnum
  | JString string
  | JArray "jsval list"
  | JObject "(string \<times> jsval) list"

text \<open>
  What the language runtime and the store's driver do with a string, an array or an
  object that stands where a number or a text is expected is not code of this
  repository. It is a parameter of the model: \<open>string_to_number\<close> is the runtime's
  conversion of such a value to a number (\<^verbatim>\<open>Number("20")\<close> is 20,
  \<^verbatim>\<open>Number("abc")\<close> is NaN), \<open>value_to_string\<close> is the driver's cast of a value
  that is not a string to a text path (\<open>None\<close> when it refuses the value).
\<close>

record platform =
  string_to_number :: "jsval \<Rightarrow> jsnum"
  value_to_string :: "jsval \<Rightarrow> string option"

text \<open>The operand of \<^verbatim>\<open>!\<close>: a value is falsy when it is undefined, null, false, 0, NaN or "".\<close>

fun truthy :: "jsval \<Rightarrow> bool" where
  "truthy JUndefined = False"
| "truthy JNull = False"
| "truthy (JBool b) = b"
| "truthy (JNumber n) = (n \<noteq> NaN \<and> n \<noteq> Fin 0)"
| "truthy (JString s) = (s \<noteq> [])"
| "truthy (JArray xs) = True"
| "truthy (JObject fs) = True"

text \<open>\<^verbatim>\<open>Number(v)\<close>, also applied by \<^verbatim>\<open><\<close> and \<^verbatim>\<open>>\<close> to an operand compared with a number.\<close>

fun Number :: "platform \<Rightarrow> jsval \<Rightarrow> jsnum" where
  "Number p JUndefined = NaN"
| "Number p JNull = Fin 0"
| "Number p (JBool b) = Fin (if b then 1 else 0)"
| "Number p (JNumber n) = n"
| "Number p (JString s) = string_to_number p (JString s)"
| "Number p (JArray xs) = string_to_number p (JArray xs)"
| "Number p (JObject fs) = string_to_number p (JObject fs)"

text \<open>The order of numbers: every comparison with NaN is false.\<close>

fun num_less :: "jsnum \<Rightarrow> jsnum \<Rightarrow> bool" where
  "num_less NaN y = False"
| "num_less x NaN = False"
| "num_less PosInf y = False"
| "num_less x NegInf = False"
| "num_less NegInf y = True"
| "num_less x PosInf = True"
| "num_less (Fin a) (Fin b) = (a < b)"

text \<open>\<^verbatim>\<open>v < k\<close> and \<^verbatim>\<open>v > k\<close> for a numeric literal \<open>k\<close>.\<close>

definition js_lt :: "platform \<Rightarrow> jsval \<Rightarrow> rat \<Rightarrow> bool" where
  "js_lt p v k = num_less (Number p v) (Fin k)"

definition js_gt :: "platform \<Rightarrow> jsval \<Rightarrow> rat \<Rightarrow> bool" where
  "js_gt p v k = num_less (Fin k) (Number p v)"

text \<open>
  A property read \<^verbatim>\<open>v.k\<close>. A missing property reads as undefined. The handlers read
  properties of \<^verbatim>\<open>req.body\<close>, which \<^verbatim>\<open>bodyParser.json()\<close> leaves an object or an
  array, and \<^verbatim>\<open>name.length\<close> behind the guard \<^verbatim>\<open>!name\<close>, so no read of theirs is on
  undefined or null (where JavaScript raises); the model reads undefined there. The list
  of a \<open>JObject\<close> holds the properties of the parsed object, each key once.
\<close>

fun get_prop :: "jsval \<Rightarrow> string \<Rightarrow> jsval" where
  "get_prop (JObject fs) k = (case map_of fs k of Some v \<Rightarrow> v | None \<Rightarrow> JUndefined)"
| "get_prop (JString s) k =
     (if k = ''length'' then JNumber (Fin (of_nat (length s))) else JUndefined)"
| "get_prop (JArray xs) k =
     (if k = ''length'' then JNumber (Fin (of_nat (length xs))) else JUndefined)"
| "get_prop v k = JUndefined"

section \<open>The Student model and the sample data\<close>

text \<open>
  A Student as the responses carry it. The sample Students (lines 63--82) have no
  timestamps; a stored Student has both (schema option \<^verbatim>\<open>timestamps: true\<close>, line 54).
  \<open>oid\<close> is the field \<^verbatim>\<open>_id\<close>.
\<close>

record student =
  oid :: string
  name :: string
  age :: rat
  course :: string
  createdAt :: "nat option"
  updatedAt :: "nat option"

definition sampleStudents :: "student list" where
  "sampleStudents =
    [\<lparr>oid = ''686f66da1801707c14d09e60'', name = ''Alice Johnson'', age = 20,
      course = ''Computer Science'', createdAt = None, updatedAt = None\<rparr>,
     \<lparr>oid = ''686f66da1801707c14d09e61'', name = ''Bob Smith'', age = 22,
      course = ''Mechanical Engineering'', createdAt = None, updatedAt = None\<rparr>,
     \<lparr>oid = ''686f66da1801707c14d09e62'', name = ''Charlie Lee'', age = 19,
      course = ''Business Administration'', createdAt = None, updatedAt = None\<rparr>]"

text \<open>The \<^verbatim>\<open>enum\<close> of the schema path \<^verbatim>\<open>course\<close> (lines 43--50).\<close>

definition course_enum :: "string list" where
  "course_enum =
    [''Computer Science'', ''Mechanical Engineering'', ''Electrical Engineering'',
     ''Business Administration'', ''Civil Engineering'', ''Medical Science'']"

section \<open>The persistence collaborator\<close>

text \<open>
  Modelled from the spec: the document store behind \<^verbatim>\<open>mongoose\<close> (the model
  \<^verbatim>\<open>Student\<close> of line 58 and \<^verbatim>\<open>mongoose.connection\<close>) is a library outside this
  repository. Its model follows the contract of the specification (find-all, find-by-id,
  create-with-validation, find-and-update-with-validation, find-and-delete, a readable
  connection state) and the schema declared in lines 27--56: \<^verbatim>\<open>name\<close> a required text
  of at least 2 characters, \<^verbatim>\<open>age\<close> a required number from 16 to 100, \<^verbatim>\<open>course\<close> a
  required text of the enumeration, both timestamps maintained by the store.

  A call is rejected with one of three kinds of error; the handlers read only its
  \<^verbatim>\<open>message\<close>. The texts are abbreviated (the store quotes the offending value in
  them), their opening words are the store's.
\<close>

datatype db_error =
    CastError string
  | ValidationError string "(string \<times> string) list"
  | DriverError string

fun complaints :: "(string \<times> string) list \<Rightarrow> string" where
  "complaints [] = []"
| "complaints [(path, m)] = path @ '': '' @ m"
| "complaints ((path, m) # es) = path @ '': '' @ m @ '', '' @ complaints es"

fun message_of :: "db_error \<Rightarrow> string" where
  "message_of (CastError path) = ''Cast to ObjectId failed at path '' @ path"
| "message_of (ValidationError title es) = title @ '': '' @ complaints es"
| "message_of (DriverError m) = m"

text \<open>
  The argument of \<^verbatim>\<open>new Student({ name, age: Number(age), course })\<close> (lines 132--136):
  three properties and no other.
\<close>

record candidate =
  name_arg :: jsval
  age_arg :: jsnum
  course_arg :: jsval

text \<open>The calls a handler makes, in order: a trace kept beside the store's state.\<close>

datatype call =
    Find
  | FindById string
  | Save candidate
  | FindByIdAndUpdate string jsval
  | FindByIdAndDelete string

text \<open>
  The state of the collaborator. \<open>readyState\<close> is \<^verbatim>\<open>mongoose.connection.readyState\<close>
  (1 when connected). \<open>fault\<close> is a failure the store answers every call with although
  the connection is up (the specification's unexpected error, distinct from a collaborator
  that is down). \<open>collection\<close> holds the stored Students in the store's order, \<open>clock\<close>
  is the time a write stamps, \<open>issued\<close> counts the identifiers given out.
\<close>

record db =
  readyState :: nat
  fault :: "string option"
  collection :: "student list"
  clock :: nat
  issued :: nat
  calls :: "call list"

definition called :: "call \<Rightarrow> db \<Rightarrow> db" where
  "called c d = d\<lparr>calls := calls d @ [c]\<rparr>"

text \<open>
  Modelled from the spec: when a call of the absent store fails. A call on a collaborator
  that is not connected waits and then fails (the specification's collaborator that is
  unreachable); a call on a connected one fails when the store answers with a fault.
\<close>

definition outage :: "db \<Rightarrow> string \<Rightarrow> db_error option" where
  "outage d opn =
     (if readyState d \<noteq> 1
      then Some (DriverError (''Operation `students.'' @ opn @ ''()` buffering timed out after 10000ms''))
      else map_option DriverError (fault d))"

subsection \<open>Identifiers\<close>

text \<open>
  Modelled from the spec: the id-format rules of the absent store and the identifiers it
  assigns. Its identifiers are 24 hexadecimal digits, as the sample data's are. A string
  of another shape fails the cast of a query's \<^verbatim>\<open>_id\<close>; the cast reads upper-case
  digits as the lower-case ones the store prints. A new identifier is the count of the
  identifiers issued so far, written in 24 digits. A lookup, a removal and a replacement
  act on the first document that carries the identifier.
\<close>

definition is_hex :: "char \<Rightarrow> bool" where
  "is_hex c = (c \<in> set ''0123456789abcdefABCDEF'')"

definition lower_hex :: "char \<Rightarrow> char" where
  "lower_hex c =
     (if c = CHR ''A'' then CHR ''a'' else if c = CHR ''B'' then CHR ''b''
      else if c = CHR ''C'' then CHR ''c'' else if c = CHR ''D'' then CHR ''d''
      else if c = CHR ''E'' then CHR ''e'' else if c = CHR ''F'' then CHR ''f'' else c)"

definition castObjectId :: "string \<Rightarrow> string option" where
  "castObjectId i = (if length i = 24 \<and> list_all is_hex i then Some (map lower_hex i) else None)"

definition hex_digit :: "nat \<Rightarrow> char" where
  "hex_digit n = ''0123456789abcdef'' ! (n mod 16)"

fun hex_digits :: "nat \<Rightarrow> nat \<Rightarrow> string" where
  "hex_digits 0 n = []"
| "hex_digits (Suc k) n = hex_digits k (n div 16) @ [hex_digit n]"

definition new_ObjectId :: "nat \<Rightarrow> string" where
  "new_ObjectId n = hex_digits 24 n"

fun find_doc :: "string \<Rightarrow> student list \<Rightarrow> student option" where
  "find_doc i [] = None"
| "find_doc i (d # ds) = (if oid d = i then Some d else find_doc i ds)"

fun remove_doc :: "string \<Rightarrow> student list \<Rightarrow> student list" where
  "remove_doc i [] = []"
| "remove_doc i (d # ds) = (if oid d = i then ds else d # remove_doc i ds)"

fun replace_doc :: "string \<Rightarrow> student \<Rightarrow> student list \<Rightarrow> student list" where
  "replace_doc i d' [] = []"
| "replace_doc i d' (d # ds) = (if oid d = i then d' # ds else d # replace_doc i d' ds)"

subsection \<open>The schema's casts and validators\<close>

text \<open>
  Modelled from the spec: the write-time validation of the absent store, run on the schema
  of lines 27--56. A value is first cast to the type of its path: null and undefined are
  absent, a text is itself, another value goes through the platform; the empty string is
  no number. Then \<^verbatim>\<open>required\<close>, \<^verbatim>\<open>minlength\<close>, \<^verbatim>\<open>min\<close>, \<^verbatim>\<open>max\<close> and
  \<^verbatim>\<open>enum\<close> are checked; the result is the stored value or the complaint.
\<close>

datatype 'a cast = Absent | Uncastable | Cast 'a

fun castString :: "platform \<Rightarrow> jsval \<Rightarrow> string cast" where
  "castString p JUndefined = Absent"
| "castString p JNull = Absent"
| "castString p (JString s) = Cast s"
| "castString p v = (case value_to_string p v of None \<Rightarrow> Uncastable | Some s \<Rightarrow> Cast s)"

fun castNumber :: "platform \<Rightarrow> jsval \<Rightarrow> jsnum cast" where
  "castNumber p JUndefined = Absent"
| "castNumber p JNull = Absent"
| "castNumber p (JNumber n) = Cast n"
| "castNumber p (JBool b) = Cast (Number p (JBool b))"
| "castNumber p (JString s) = (if s = [] then Absent else Cast (Number p (JString s)))"
| "castNumber p v = Uncastable"

fun check_name :: "string cast \<Rightarrow> string + string" where
  "check_name Absent = Inl ''Path `name` is required.''"
| "check_name Uncastable = Inl ''Cast to string failed''"
| "check_name (Cast s) =
     (if s = [] then Inl ''Path `name` is required.''
      else if length s < 2 then Inl ''Path `name` is shorter than the minimum allowed length (2).''
      else Inr s)"

fun check_age :: "jsnum cast \<Rightarrow> string + rat" where
  "check_age Absent = Inl ''Path `age` is required.''"
| "check_age Uncastable = Inl ''Cast to Number failed''"
| "check_age (Cast NaN) = Inl ''Cast to Number failed''"
| "check_age (Cast NegInf) = Inl ''Path `age` is less than minimum allowed value (16).''"
| "check_age (Cast PosInf) = Inl ''Path `age` is more than maximum allowed value (100).''"
| "check_age (Cast (Fin r)) =
     (if r < 16 then Inl ''Path `age` is less than minimum allowed value (16).''
      else if r > 100 then Inl ''Path `age` is more than maximum allowed value (100).''
      else Inr r)"

fun check_course :: "string cast \<Rightarrow> string + string" where
  "check_course Absent = Inl ''Path `course` is required.''"
| "check_course Uncastable = Inl ''Cast to string failed''"
| "check_course (Cast s) =
     (if s = [] then Inl ''Path `course` is required.''
      else if s \<notin> set course_enum then Inl ''not a valid enum value for path `course`.''
      else Inr s)"

definition complaint :: "string \<Rightarrow> string + 'a \<Rightarrow> (string \<times> string) list" where
  "complaint path r = (case r of Inl m \<Rightarrow> [(path, m)] | Inr v \<Rightarrow> [])"

subsection \<open>The five calls\<close>

text \<open>
  Modelled from the spec: find-all, \<^verbatim>\<open>Student.find()\<close> of the absent store. It returns
  every stored Student, in the store's order.
\<close>

definition Student_find :: "db \<Rightarrow> (db_error + student list) \<times> db" where
  "Student_find d =
     (case outage d ''find'' of
        Some e \<Rightarrow> (Inl e, called Find d)
      | None \<Rightarrow> (Inr (collection d), called Find d))"

text \<open>
  Modelled from the spec: find-by-id, \<^verbatim>\<open>Student.findById(id)\<close> of the absent store.
  The cast of the identifier comes first; no match is null.
\<close>

definition Student_findById :: "db \<Rightarrow> string \<Rightarrow> (db_error + student option) \<times> db" where
  "Student_findById d i =
     (case castObjectId i of
        None \<Rightarrow> (Inl (CastError ''_id''), called (FindById i) d)
      | Some k \<Rightarrow>
          (case outage d ''findOne'' of
             Some e \<Rightarrow> (Inl e, called (FindById i) d)
           | None \<Rightarrow> (Inr (find_doc k (collection d)), called (FindById i) d)))"

text \<open>
  Modelled from the spec: create-with-validation, \<^verbatim>\<open>new Student(c).save()\<close> of the
  absent store. The document gets its identifier when it is built, the schema's validators
  run before the store is asked, a stored document is stamped with both timestamps and
  appended.
\<close>

definition Student_save :: "platform \<Rightarrow> db \<Rightarrow> candidate \<Rightarrow> (db_error + student) \<times> db" where
  "Student_save p d c =
     (let d1 = (called (Save c) d)\<lparr>issued := Suc (issued d)\<rparr>;
          n = check_name (castString p (name_arg c));
          a = check_age (Cast (age_arg c));
          k = check_course (castString p (course_arg c))
      in case (n, a, k) of
           (Inr n', Inr a', Inr k') \<Rightarrow>
             (case outage d ''insertOne'' of
                Some e \<Rightarrow> (Inl e, d1)
              | None \<Rightarrow>
                  if find_doc (new_ObjectId (issued d)) (collection d) \<noteq> None
                  then (Inl (DriverError ''E11000 duplicate key error''), d1)
                  else
                    (let s = \<lparr>oid = new_ObjectId (issued d), name = n', age = a', course = k',
                              createdAt = Some (clock d), updatedAt = Some (clock d)\<rparr>
                     in (Inr s, d1\<lparr>collection := collection d @ [s], clock := Suc (clock d)\<rparr>)))
         | _ \<Rightarrow>
             (Inl (ValidationError ''Student validation failed''
                    (complaint ''name'' n @ complaint ''age'' a @ complaint ''course'' k)), d1))"

text \<open>
  Modelled from the spec: find-and-update-with-validation,
  \<^verbatim>\<open>Student.findByIdAndUpdate(id, update, { new: true, runValidators: true })\<close> of the
  absent store: a partial field replacement, validated by the collaborator's own rules. A
  path among \<^verbatim>\<open>name\<close>, \<^verbatim>\<open>age\<close>, \<^verbatim>\<open>course\<close> that the update supplies is cast and
  validated, one it does not supply keeps its value, the update time is stamped, the
  updated document is returned. Other properties of the update are dropped; update
  operators are not modelled.
\<close>

datatype 'a change = Unsupplied | Rejected string | Replace 'a

definition supplied :: "jsval \<Rightarrow> (string + 'a) \<Rightarrow> 'a change" where
  "supplied v r =
     (if v = JUndefined then Unsupplied
      else case r of Inl m \<Rightarrow> Rejected m | Inr x \<Rightarrow> Replace x)"

definition rejection :: "string \<Rightarrow> 'a change \<Rightarrow> (string \<times> string) list" where
  "rejection path ch = (case ch of Rejected m \<Rightarrow> [(path, m)] | _ \<Rightarrow> [])"

definition merged :: "'a change \<Rightarrow> 'a \<Rightarrow> 'a" where
  "merged ch old = (case ch of Replace x \<Rightarrow> x | _ \<Rightarrow> old)"

definition update_name :: "platform \<Rightarrow> jsval \<Rightarrow> string change" where
  "update_name p upd =
     supplied (get_prop upd ''name'') (check_name (castString p (get_prop upd ''name'')))"

definition update_age :: "platform \<Rightarrow> jsval \<Rightarrow> rat change" where
  "update_age p upd =
     supplied (get_prop upd ''age'') (check_age (castNumber p (get_prop upd ''age'')))"

definition update_course :: "platform \<Rightarrow> jsval \<Rightarrow> string change" where
  "update_course p upd =
     supplied (get_prop upd ''course'') (check_course (castString p (get_prop upd ''course'')))"

definition update_rejections :: "platform \<Rightarrow> jsval \<Rightarrow> (string \<times> string) list" where
  "update_rejections p upd =
     rejection ''name'' (update_name p upd) @ rejection ''age'' (update_age p upd)
       @ rejection ''course'' (update_course p upd)"

definition Student_findByIdAndUpdate ::
    "platform \<Rightarrow> db \<Rightarrow> string \<Rightarrow> jsval \<Rightarrow> (db_error + student option) \<times> db" where
  "Student_findByIdAndUpdate p d i upd =
     (let d1 = called (FindByIdAndUpdate i upd) d
      in case castObjectId i of
           None \<Rightarrow> (Inl (CastError ''_id''), d1)
         | Some j \<Rightarrow>
             if update_rejections p upd \<noteq> []
             then (Inl (ValidationError ''Validation failed'' (update_rejections p upd)), d1)
             else
               (case outage d ''findOneAndUpdate'' of
                  Some e \<Rightarrow> (Inl e, d1)
                | None \<Rightarrow>
                    (case find_doc j (collection d) of
                       None \<Rightarrow> (Inr None, d1)
                     | Some s \<Rightarrow>
                         (let s' = s\<lparr>name := merged (update_name p upd) (name s),
                                     age := merged (update_age p upd) (age s),
                                     course := merged (update_course p upd) (course s),
                                     updatedAt := Some (clock d)\<rparr>
                          in (Inr (Some s'),
                              d1\<lparr>collection := replace_doc j s' (collection d),
                                 clock := Suc (clock d)\<rparr>)))))"

text \<open>
  Modelled from the spec: find-and-delete, \<^verbatim>\<open>Student.findByIdAndDelete(id)\<close> of the
  absent store. It removes the match and returns it as it was.
\<close>

definition Student_findByIdAndDelete :: "db \<Rightarrow> string \<Rightarrow> (db_error + student option) \<times> db" where
  "Student_findByIdAndDelete d i =
     (let d1 = called (FindByIdAndDelete i) d
      in case castObjectId i of
           None \<Rightarrow> (Inl (CastError ''_id''), d1)
         | Some j \<Rightarrow>
             (case outage d ''findOneAndDelete'' of
                Some e \<Rightarrow> (Inl e, d1)
              | None \<Rightarrow>
                  (case find_doc j (collection d) of
                     None \<Rightarrow> (Inr None, d1)
                   | Some s \<Rightarrow> (Inr (Some s), d1\<lparr>collection := remove_doc j (collection d)\<rparr>))))"

section \<open>Responses\<close>

text \<open>The payload of \<^verbatim>\<open>GET /\<close> (lines 196--218 and 220--226).\<close>

record info =
  message :: string
  status :: string
  database :: string
  totalStudents :: nat
  students :: "student list"
  endpoints :: "(string \<times> string) list option"
  examplePayload :: "(string \<times> rat \<times> string) option"

datatype body =
    StudentList "student list"
  | StudentDoc student
  | ErrorBody string
  | DeletedBody string student
  | InfoBody info

text \<open>\<^verbatim>\<open>res.json\<close> answers 200 unless \<^verbatim>\<open>res.status\<close> was called before it.\<close>

record response =
  statusCode :: nat
  body :: body

text \<open>The three signs of the texts, as their UTF-8 bytes.\<close>

definition rocket :: string where
  "rocket = [CHR 0xF0, CHR 0x9F, CHR 0x9A, CHR 0x80]"

definition check_mark :: string where
  "check_mark = [CHR 0xE2, CHR 0x9C, CHR 0x85]"

definition cross_mark :: string where
  "cross_mark = [CHR 0xE2, CHR 0x9D, CHR 0x8C]"

section \<open>The route handlers\<close>

text \<open>\<^verbatim>\<open>GET /students\<close> (lines 89--96).\<close>

definition get_students :: "db \<Rightarrow> response \<times> db" where
  "get_students d =
     (case Student_find d of
        (Inr found, d') \<Rightarrow> (\<lparr>statusCode = 200, body = StudentList found\<rparr>, d')
      | (Inl err, d') \<Rightarrow> (\<lparr>statusCode = 200, body = StudentList sampleStudents\<rparr>, d'))"

text \<open>\<^verbatim>\<open>GET /students/:id\<close> (lines 99--109).\<close>

definition get_student_by_id :: "db \<Rightarrow> string \<Rightarrow> response \<times> db" where
  "get_student_by_id d i =
     (case Student_findById d i of
        (Inr None, d') \<Rightarrow> (\<lparr>statusCode = 404, body = ErrorBody ''Student not found''\<rparr>, d')
      | (Inr (Some s), d') \<Rightarrow> (\<lparr>statusCode = 200, body = StudentDoc s\<rparr>, d')
      | (Inl err, d') \<Rightarrow> (\<lparr>statusCode = 400, body = ErrorBody ''Invalid student ID''\<rparr>, d'))"

text \<open>\<^verbatim>\<open>POST /students\<close> (lines 112--143): the three checks, then the save.\<close>

definition name_rejected :: "platform \<Rightarrow> jsval \<Rightarrow> bool" where
  "name_rejected p v = (\<not> truthy v \<or> js_lt p (get_prop v ''length'') 2)"

definition age_rejected :: "platform \<Rightarrow> jsval \<Rightarrow> bool" where
  "age_rejected p v = (\<not> truthy v \<or> js_lt p v 16 \<or> js_gt p v 100)"

definition course_rejected :: "jsval \<Rightarrow> bool" where
  "course_rejected v = (\<not> truthy v)"

definition name_message :: string where
  "name_message = ''Name is required and must be at least 2 characters''"

definition age_message :: string where
  "age_message = ''Age is required and must be between 16 and 100''"

definition course_message :: string where
  "course_message = ''Course is required''"

definition post_students :: "platform \<Rightarrow> db \<Rightarrow> jsval \<Rightarrow> response \<times> db" where
  "post_students p d req_body =
     (if name_rejected p (get_prop req_body ''name'')
      then (\<lparr>statusCode = 400, body = ErrorBody name_message\<rparr>, d)
      else if age_rejected p (get_prop req_body ''age'')
      then (\<lparr>statusCode = 400, body = ErrorBody age_message\<rparr>, d)
      else if course_rejected (get_prop req_body ''course'')
      then (\<lparr>statusCode = 400, body = ErrorBody course_message\<rparr>, d)
      else
        (case Student_save p d
                \<lparr>name_arg = get_prop req_body ''name'',
                 age_arg = Number p (get_prop req_body ''age''),
                 course_arg = get_prop req_body ''course''\<rparr> of
           (Inr savedStudent, d') \<Rightarrow> (\<lparr>statusCode = 201, body = StudentDoc savedStudent\<rparr>, d')
         | (Inl err, d') \<Rightarrow> (\<lparr>statusCode = 400, body = ErrorBody (message_of err)\<rparr>, d')))"

text \<open>\<^verbatim>\<open>PUT /students/:id\<close> (lines 146--161).\<close>

definition put_student :: "platform \<Rightarrow> db \<Rightarrow> string \<Rightarrow> jsval \<Rightarrow> response \<times> db" where
  "put_student p d i req_body =
     (case Student_findByIdAndUpdate p d i req_body of
        (Inr None, d') \<Rightarrow> (\<lparr>statusCode = 404, body = ErrorBody ''Student not found''\<rparr>, d')
      | (Inr (Some s), d') \<Rightarrow> (\<lparr>statusCode = 200, body = StudentDoc s\<rparr>, d')
      | (Inl err, d') \<Rightarrow> (\<lparr>statusCode = 400, body = ErrorBody (message_of err)\<rparr>, d'))"

text \<open>\<^verbatim>\<open>DELETE /students/:id\<close> (lines 164--179).\<close>

definition delete_student :: "db \<Rightarrow> string \<Rightarrow> response \<times> db" where
  "delete_student d i =
     (case Student_findByIdAndDelete d i of
        (Inr None, d') \<Rightarrow> (\<lparr>statusCode = 404, body = ErrorBody ''Student not found''\<rparr>, d')
      | (Inr (Some s), d') \<Rightarrow>
          (\<lparr>statusCode = 200, body = DeletedBody ''Student deleted'' s\<rparr>, d')
      | (Inl err, d') \<Rightarrow> (\<lparr>statusCode = 500, body = ErrorBody (message_of err)\<rparr>, d'))"

text \<open>
  \<^verbatim>\<open>GET /\<close> (lines 184--228). \<open>root_students\<close> is the inner \<^verbatim>\<open>try\<close> (lines 187--194),
  \<open>root_try\<close> the outer one, whose result says whether it raised; \<open>get_root\<close> adds the
  outer \<^verbatim>\<open>catch\<close>. The texts of the payload that do not depend on the request are
  constants.
\<close>

definition root_students :: "db \<Rightarrow> student list \<times> db" where
  "root_students d =
     (case Student_find d of
        (Inr found, d') \<Rightarrow> (if length found = 0 then sampleStudents else found, d')
      | (Inl err, d') \<Rightarrow> (sampleStudents, d'))"

definition welcome_message :: string where
  "welcome_message = rocket @ '' Student Management System is running!''"

definition api_endpoints :: "(string \<times> string) list" where
  "api_endpoints =
     [(''GET /'', ''API info with students (this page)''),
      (''GET /students'', ''Get all students''),
      (''GET /students/:id'', ''Get single student''),
      (''POST /students'', ''Create new student''),
      (''PUT /students/:id'', ''Update student''),
      (''DELETE /students/:id'', ''Delete student'')]"

definition createStudent :: "string \<times> rat \<times> string" where
  "createStudent = (''Student Name'', 20, ''Computer Science'')"

definition root_try :: "db \<Rightarrow> (string + response) \<times> db" where
  "root_try d =
     (case root_students d of
        (studs, d') \<Rightarrow>
          (Inr \<lparr>statusCode = 200,
                body = InfoBody
                  \<lparr>message = welcome_message,
                   status = ''Server is active'',
                   database = (if readyState d' = 1 then ''Connected '' @ check_mark
                               else ''Disconnected '' @ cross_mark),
                   totalStudents = length studs,
                   students = studs,
                   endpoints = Some api_endpoints,
                   examplePayload = Some createStudent\<rparr>\<rparr>, d'))"

definition get_root :: "db \<Rightarrow> response \<times> db" where
  "get_root d =
     (case root_try d of
        (Inr r, d') \<Rightarrow> (r, d')
      | (Inl err, d') \<Rightarrow>
          (\<lparr>statusCode = 200,
            body = InfoBody
              \<lparr>message = welcome_message,
               status = ''Server is active'',
               database = ''Disconnected '' @ cross_mark,
               totalStudents = length sampleStudents,
               students = sampleStudents,
               endpoints = None,
               examplePayload = None\<rparr>\<rparr>, d'))"

section \<open>A platform and a store to evaluate on\<close>

text \<open>
  One instance of the platform: it reads a string of decimal digits as that number, the
  empty string as 0 and every other string, array or object as NaN, and its driver
  refuses to cast a value that is not a string to a text.
\<close>

definition digit_value :: "char \<Rightarrow> nat option" where
  "digit_value c = map_of (zip ''0123456789'' [0, 1, 2, 3, 4, 5, 6, 7, 8, 9]) c"

fun decimal_value :: "nat \<Rightarrow> string \<Rightarrow> nat option" where
  "decimal_value acc [] = Some acc"
| "decimal_value acc (c # cs) =
     (case digit_value c of None \<Rightarrow> None | Some v \<Rightarrow> decimal_value (10 * acc + v) cs)"

definition decimal_to_number :: "jsval \<Rightarrow> jsnum" where
  "decimal_to_number v =
     (case v of
        JString s \<Rightarrow> (case decimal_value 0 s of None \<Rightarrow> NaN | Some n \<Rightarrow> Fin (of_nat n))
      | _ \<Rightarrow> NaN)"

definition sample_platform :: platform where
  "sample_platform = \<lparr>string_to_number = decimal_to_number, value_to_string = (\<lambda>v. None)\<rparr>"

text \<open>A connected store holding one Student, and the same store with an empty collection.\<close>

definition dana :: student where
  "dana = \<lparr>oid = ''686f66da1801707c14d09e63'', name = ''Dana Kim'', age = 21,
           course = ''Civil Engineering'', createdAt = Some 3, updatedAt = Some 3\<rparr>"

definition sample_db :: db where
  "sample_db = \<lparr>readyState = 1, fault = None, collection = [dana], clock = 7, issued = 1,
                calls = []\<rparr>"

definition empty_db :: db where
  "empty_db = \<lparr>readyState = 1, fault = None, collection = [], clock = 7, issued = 1,
               calls = []\<rparr>"

text \<open>The store is reachable when the connection is up and it answers without a fault.\<close>

definition reachable :: "db \<Rightarrow> bool" where
  "reachable d = (readyState d = 1 \<and> fault d = None)"

section \<open>Facts about the store\<close>

lemma outage_None_iff: "outage d opn = None \<longleftrightarrow> reachable d"
  by (simp add: outage_def reachable_def)

lemma find_doc_None_iff: "find_doc i ds = None \<longleftrightarrow> i \<notin> oid ` set ds"
  by (induction ds) auto

lemma find_doc_Some: "find_doc i ds = Some s \<Longrightarrow> oid s = i \<and> s \<in> set ds"
  by (induction ds) (auto split: if_splits)

lemma find_doc_remove_doc:
  "distinct (map oid ds) \<Longrightarrow> find_doc i (remove_doc i ds) = None"
  by (induction ds) (auto simp: find_doc_None_iff)

lemma find_doc_replace_doc:
  "find_doc i ds = Some s \<Longrightarrow> oid s' = i \<Longrightarrow> find_doc i (replace_doc i s' ds) = Some s'"
  by (induction ds) (auto split: if_splits)

lemma new_ObjectId_1: "new_ObjectId (Suc 0) = ''000000000000000000000001''"
  by code_simp

lemma check_name_Inr: "check_name c = Inr n \<Longrightarrow> c = Cast n \<and> 2 \<le> length n"
  by (cases c) (auto split: if_splits)

lemma check_course_Inr: "check_course c = Inr k \<Longrightarrow> c = Cast k \<and> k \<in> set course_enum"
  by (cases c) (auto split: if_splits)

lemma check_age_Inr: "check_age (Cast x) = Inr a \<Longrightarrow> x = Fin a \<and> 16 \<le> a \<and> a \<le> 100"
  by (cases x) (auto split: if_splits)

lemma Student_save_Inr:
  assumes "fst (Student_save p d c) = Inr s"
  shows "castString p (name_arg c) = Cast (name s) \<and> 2 \<le> length (name s)
     \<and> age_arg c = Fin (age s) \<and> 16 \<le> age s \<and> age s \<le> 100
     \<and> castString p (course_arg c) = Cast (course s) \<and> course s \<in> set course_enum
     \<and> oid s = new_ObjectId (issued d) \<and> find_doc (oid s) (collection d) = None
     \<and> createdAt s = Some (clock d) \<and> updatedAt s = Some (clock d)
     \<and> reachable d"
  using assms
  by (auto simp: Student_save_def Let_def
           split: sum.splits option.splits if_splits
           dest!: check_name_Inr check_course_Inr check_age_Inr
           dest: outage_None_iff [THEN iffD1])

lemma Student_save_Inr_state:
  assumes "fst (Student_save p d c) = Inr s"
  shows "snd (Student_save p d c)
          = (called (Save c) d)\<lparr>issued := Suc (issued d), collection := collection d @ [s],
                                  clock := Suc (clock d)\<rparr>"
  using assms
  by (auto simp: Student_save_def Let_def split: sum.splits option.splits if_splits)

lemma castObjectId_sample:
  "castObjectId ''686f66da1801707c14d09e60'' = Some ''686f66da1801707c14d09e60''"
  by (simp add: castObjectId_def is_hex_def lower_hex_def)

lemma castObjectId_dana:
  "castObjectId ''686f66da1801707c14d09e63'' = Some ''686f66da1801707c14d09e63''"
  by (simp add: castObjectId_def is_hex_def lower_hex_def)

lemma supplied_Unsupplied: "supplied v r = Unsupplied \<longleftrightarrow> v = JUndefined"
  by (simp add: supplied_def split: sum.splits)

lemma supplied_Replace: "supplied v r = Replace x \<longleftrightarrow> v \<noteq> JUndefined \<and> r = Inr x"
  by (auto simp: supplied_def split: sum.splits)

lemma rejection_Nil: "rejection path ch = [] \<longleftrightarrow> (\<forall>m. ch \<noteq> Rejected m)"
  by (cases ch) (simp_all add: rejection_def)

lemma update_rejections_Nil:
  "update_rejections p b = [] \<longleftrightarrow>
     (\<forall>m. update_name p b \<noteq> Rejected m) \<and> (\<forall>m. update_age p b \<noteq> Rejected m)
     \<and> (\<forall>m. update_course p b \<noteq> Rejected m)"
  by (simp add: update_rejections_def rejection_Nil)

lemma merged_name:
  assumes "\<forall>m. update_name p b \<noteq> Rejected m"
  shows "(get_prop b ''name'' = JUndefined \<longrightarrow> merged (update_name p b) old = old)
     \<and> (get_prop b ''name'' \<noteq> JUndefined \<longrightarrow>
          castString p (get_prop b ''name'') = Cast (merged (update_name p b) old)
          \<and> 2 \<le> length (merged (update_name p b) old))"
  using assms
  by (cases "check_name (castString p (get_prop b ''name''))")
     (auto simp: update_name_def supplied_def merged_def dest: check_name_Inr)

lemma merged_course:
  assumes "\<forall>m. update_course p b \<noteq> Rejected m"
  shows "(get_prop b ''course'' = JUndefined \<longrightarrow> merged (update_course p b) old = old)
     \<and> (get_prop b ''course'' \<noteq> JUndefined \<longrightarrow>
          castString p (get_prop b ''course'') = Cast (merged (update_course p b) old)
          \<and> merged (update_course p b) old \<in> set course_enum)"
  using assms
  by (cases "check_course (castString p (get_prop b ''course''))")
     (auto simp: update_course_def supplied_def merged_def dest: check_course_Inr)

lemma check_age_Inr': "check_age c = Inr a \<Longrightarrow> c = Cast (Fin a) \<and> 16 \<le> a \<and> a \<le> 100"
  by (cases c) (auto dest: check_age_Inr)

lemma merged_age:
  assumes "\<forall>m. update_age p b \<noteq> Rejected m"
  shows "(get_prop b ''age'' = JUndefined \<longrightarrow> merged (update_age p b) old = old)
     \<and> (get_prop b ''age'' \<noteq> JUndefined \<longrightarrow>
          castNumber p (get_prop b ''age'') = Cast (Fin (merged (update_age p b) old))
          \<and> 16 \<le> merged (update_age p b) old \<and> merged (update_age p b) old \<le> 100)"
  using assms
  by (cases "check_age (castNumber p (get_prop b ''age''))")
     (auto simp: update_age_def supplied_def merged_def dest: check_age_Inr')

lemma set_remove_doc:
  "distinct (map oid ds) \<Longrightarrow> find_doc k ds = Some s \<Longrightarrow> set (remove_doc k ds) = set ds - {s}"
  by (induction ds) (auto split: if_splits dest: find_doc_Some)


lemma Student_findByIdAndUpdate_found:
  assumes "castObjectId i = Some k" and "update_rejections p b = []" and "reachable d"
    and "find_doc k (collection d) = Some s"
  shows "Student_findByIdAndUpdate p d i b
     = (Inr (Some (s\<lparr>name := merged (update_name p b) (name s),
                       age := merged (update_age p b) (age s),
                       course := merged (update_course p b) (course s),
                       updatedAt := Some (clock d)\<rparr>)),
        (called (FindByIdAndUpdate i b) d)
          \<lparr>collection := replace_doc k
              (s\<lparr>name := merged (update_name p b) (name s),
                 age := merged (update_age p b) (age s),
                 course := merged (update_course p b) (course s),
                 updatedAt := Some (clock d)\<rparr>) (collection d),
           clock := Suc (clock d)\<rparr>)"
  using assms
  by (simp add: Student_findByIdAndUpdate_def Let_def outage_None_iff [THEN iffD2])

lemma castObjectId_upper:
  "castObjectId ''686F66DA1801707C14D09E63'' = Some ''686f66da1801707c14d09e63''"
  by (simp add: castObjectId_def is_hex_def lower_hex_def)

lemma castObjectId_malformed: "castObjectId ''not-an-id'' = None"
  by (simp add: castObjectId_def)

lemma reachable_sample_db: "reachable sample_db"
  by (simp add: reachable_def sample_db_def)

lemma find_doc_sample_db:
  "find_doc ''686f66da1801707c14d09e63'' (collection sample_db) = Some dana"
  "find_doc ''686f66da1801707c14d09e60'' (collection sample_db) = None"
  by (simp_all add: sample_db_def dana_def)

lemma length_remove_doc:
  "find_doc k ds = Some s \<Longrightarrow> length (remove_doc k ds) < length ds"
  by (induction ds) (auto split: if_splits)

lemma Student_findByIdAndDelete_found:
  assumes "castObjectId i = Some k" and "reachable d" and "find_doc k (collection d) = Some s"
  shows "Student_findByIdAndDelete d i
           = (Inr (Some s), (called (FindByIdAndDelete i) d)\<lparr>collection := remove_doc k (collection d)\<rparr>)"
  using assms
  by (simp add: Student_findByIdAndDelete_def Let_def outage_None_iff [THEN iffD2])

lemma get_student_by_id_unreachable:
  "\<not> reachable d \<Longrightarrow>
     fst (get_student_by_id d i) = \<lparr>statusCode = 400, body = ErrorBody ''Invalid student ID''\<rparr>"
  by (auto simp: get_student_by_id_def Student_findById_def
           split: option.splits dest: outage_None_iff [THEN iffD1])

lemma put_student_outage:
  "castObjectId i = Some k \<Longrightarrow> update_rejections p b = [] \<Longrightarrow>
   outage d ''findOneAndUpdate'' = Some e \<Longrightarrow>
     fst (put_student p d i b) = \<lparr>statusCode = 400, body = ErrorBody (message_of e)\<rparr>"
  by (simp add: put_student_def Student_findByIdAndUpdate_def Let_def)

lemma get_students_status: "statusCode (fst (get_students d)) = 200"
  by (simp add: get_students_def split: prod.splits sum.splits)

lemma get_students_fallback:
  "\<not> reachable d \<Longrightarrow>
     fst (get_students d) = \<lparr>statusCode = 200, body = StudentList sampleStudents\<rparr>"
  by (auto simp: get_students_def Student_find_def
           split: option.splits dest: outage_None_iff [THEN iffD1])

lemma root_try_returns: "\<exists>r. fst (root_try d) = Inr r"
  by (simp add: root_try_def split: prod.splits)

section \<open>Create: the checks before the save\<close>




text \<open>
  Claim C6. When the three checks pass and the collaborator accepts the document,
  \<^verbatim>\<open>POST /students\<close> answers 201 with the stored Student, which is appended to the
  collection. Its name and its course are the casts of the request's (the same text when
  the request gave a text), its age is the number \<^verbatim>\<open>Number(age)\<close>, it satisfies the
  schema, and it carries an identifier the collaborator issued, carried by no stored
  Student before, and both timestamps.
\<close>

theorem post_students_created:
  assumes "\<not> name_rejected p (get_prop b ''name'')"
    and "\<not> age_rejected p (get_prop b ''age'')"
    and "\<not> course_rejected (get_prop b ''course'')"
    and "fst (Student_save p d \<lparr>name_arg = get_prop b ''name'',
                                  age_arg = Number p (get_prop b ''age''),
                                  course_arg = get_prop b ''course''\<rparr>) = Inr s"
  shows "fst (post_students p d b) = \<lparr>statusCode = 201, body = StudentDoc s\<rparr>
     \<and> collection (snd (post_students p d b)) = collection d @ [s]
     \<and> castString p (get_prop b ''name'') = Cast (name s)
     \<and> castString p (get_prop b ''course'') = Cast (course s)
     \<and> Number p (get_prop b ''age'') = Fin (age s)
     \<and> (\<forall>n. get_prop b ''name'' = JString n \<longrightarrow> name s = n)
     \<and> (\<forall>k. get_prop b ''course'' = JString k \<longrightarrow> course s = k)
     \<and> (\<forall>r. get_prop b ''age'' = JNumber (Fin r) \<longrightarrow> age s = r)
     \<and> 2 \<le> length (name s) \<and> 16 \<le> age s \<and> age s \<le> 100 \<and> course s \<in> set course_enum
     \<and> oid s = new_ObjectId (issued d) \<and> find_doc (oid s) (collection d) = None
     \<and> createdAt s = Some (clock d) \<and> updatedAt s = Some (clock d)"
proof -
  let ?c = "\<lparr>name_arg = get_prop b ''name'', age_arg = Number p (get_prop b ''age''),
             course_arg = get_prop b ''course''\<rparr>"
  note sv = Student_save_Inr [OF assms(4)]
  have post: "post_students p d b = (\<lparr>statusCode = 201, body = StudentDoc s\<rparr>, snd (Student_save p d ?c))"
    using assms by (auto simp: post_students_def split: prod.splits sum.splits)
  have coll: "collection (snd (post_students p d b)) = collection d @ [s]"
    unfolding post by (simp add: Student_save_Inr_state [OF assms(4)] called_def)
  have fields: "(\<forall>n. get_prop b ''name'' = JString n \<longrightarrow> name s = n)
     \<and> (\<forall>k. get_prop b ''course'' = JString k \<longrightarrow> course s = k)
     \<and> (\<forall>r. get_prop b ''age'' = JNumber (Fin r) \<longrightarrow> age s = r)"
    using sv by auto
  from post coll fields sv show ?thesis by auto
qed

theorem post_students_created_witness:
  "fst (post_students sample_platform sample_db
      (JObject [(''name'', JString ''Eli Roe''), (''age'', JString ''21''),
                (''course'', JString ''Medical Science'')]))
   = \<lparr>statusCode = 201,
      body = StudentDoc \<lparr>oid = ''000000000000000000000001'', name = ''Eli Roe'', age = 21,
               course = ''Medical Science'', createdAt = Some 7, updatedAt = Some 7\<rparr>\<rparr>"
proof -
  let ?b = "JObject [(''name'', JString ''Eli Roe''), (''age'', JString ''21''),
                (''course'', JString ''Medical Science'')]"
  let ?s = "\<lparr>oid = ''000000000000000000000001'', name = ''Eli Roe'', age = 21,
               course = ''Medical Science'', createdAt = Some 7, updatedAt = Some 7\<rparr>"
  have n: "\<not> name_rejected sample_platform (get_prop ?b ''name'')"
    by (simp add: name_rejected_def js_lt_def)
  have a: "\<not> age_rejected sample_platform (get_prop ?b ''age'')"
    by (simp add: age_rejected_def js_lt_def js_gt_def sample_platform_def
          decimal_to_number_def digit_value_def)
  have k: "\<not> course_rejected (get_prop ?b ''course'')"
    by (simp add: course_rejected_def)
  have sv: "fst (Student_save sample_platform sample_db
              \<lparr>name_arg = get_prop ?b ''name'',
               age_arg = Number sample_platform (get_prop ?b ''age''),
               course_arg = get_prop ?b ''course''\<rparr>) = Inr ?s"
    by (simp add: Student_save_def sample_db_def sample_platform_def decimal_to_number_def
          digit_value_def outage_def course_enum_def new_ObjectId_1 dana_def called_def Let_def)
  from post_students_created [OF n a k sv] show ?thesis by simp
qed

text \<open>
  A body whose course is a text outside the enumeration and whose name is missing is
  stopped by the name check: the answer carries the handler's name message, the
  collaborator is not asked.
\<close>

theorem post_students_course_counterexample:
  "get_prop (JObject [(''course'', JString ''Astrology'')]) ''course'' = JString ''Astrology''
   \<and> ''Astrology'' \<noteq> [] \<and> ''Astrology'' \<notin> set course_enum
   \<and> name_rejected sample_platform (get_prop (JObject [(''course'', JString ''Astrology'')]) ''name'')
   \<and> post_students sample_platform sample_db (JObject [(''course'', JString ''Astrology'')])
       = (\<lparr>statusCode = 400, body = ErrorBody name_message\<rparr>, sample_db)"
  by (simp add: course_enum_def name_rejected_def post_students_def)

text \<open>
  Claim C4, amended. When the name check and the age check pass and the course is a
  non-empty text outside the enumeration, the course check passes as well, the handler
  calls the save, the collaborator's validation rejects the document on the path
  \<^verbatim>\<open>course\<close>, and the answer is 400 with the collaborator's validation message, which
  is none of the handler's three messages. Nothing is stored.
\<close>

theorem post_students_course_outside_enum:
  assumes "\<not> name_rejected p (get_prop b ''name'')"
    and "\<not> age_rejected p (get_prop b ''age'')"
    and "get_prop b ''course'' = JString c" and "c \<noteq> []" and "c \<notin> set course_enum"
  shows "\<not> course_rejected (get_prop b ''course'')
     \<and> (\<exists>es. fst (post_students p d b)
               = \<lparr>statusCode = 400,
                  body = ErrorBody (message_of (ValidationError ''Student validation failed'' es))\<rparr>
             \<and> (''course'', ''not a valid enum value for path `course`.'') \<in> set es
             \<and> message_of (ValidationError ''Student validation failed'' es)
                  \<notin> {name_message, age_message, course_message})
     \<and> collection (snd (post_students p d b)) = collection d
     \<and> calls (snd (post_students p d b))
          = calls d @ [Save \<lparr>name_arg = get_prop b ''name'',
                              age_arg = Number p (get_prop b ''age''),
                              course_arg = get_prop b ''course''\<rparr>]"
proof -
  let ?c = "\<lparr>name_arg = get_prop b ''name'', age_arg = Number p (get_prop b ''age''),
             course_arg = get_prop b ''course''\<rparr>"
  let ?es = "complaint ''name'' (check_name (castString p (get_prop b ''name'')))
             @ complaint ''age'' (check_age (Cast (Number p (get_prop b ''age''))))
             @ complaint ''course'' (check_course (castString p (get_prop b ''course'')))"
  have crs: "\<not> course_rejected (get_prop b ''course'')"
    using assms by (simp add: course_rejected_def)
  have chk: "check_course (castString p (get_prop b ''course''))
               = Inl ''not a valid enum value for path `course`.''"
    using assms by simp
  have sv: "Student_save p d ?c
              = (Inl (ValidationError ''Student validation failed'' ?es),
                 (called (Save ?c) d)\<lparr>issued := Suc (issued d)\<rparr>)"
    using chk by (simp add: Student_save_def Let_def split: sum.splits)
  have post: "post_students p d b
     = (\<lparr>statusCode = 400,
         body = ErrorBody (message_of (ValidationError ''Student validation failed'' ?es))\<rparr>,
        (called (Save ?c) d)\<lparr>issued := Suc (issued d)\<rparr>)"
    using assms(1,2) crs by (simp add: post_students_def sv)
  have mem: "(''course'', ''not a valid enum value for path `course`.'') \<in> set ?es"
    using chk by (simp add: complaint_def)
  have msg: "message_of (ValidationError ''Student validation failed'' ?es)
               \<notin> {name_message, age_message, course_message}"
    by (simp add: name_message_def age_message_def course_message_def)
  from crs post mem msg show ?thesis
    by (auto simp: called_def)
qed

theorem post_students_course_outside_enum_witness:
  "fst (post_students sample_platform sample_db
      (JObject [(''name'', JString ''Eli Roe''), (''age'', JNumber (Fin 21)),
                (''course'', JString ''Astrology'')]))
    = \<lparr>statusCode = 400,
       body = ErrorBody
         ''Student validation failed: course: not a valid enum value for path `course`.''\<rparr>
   \<and> collection (snd (post_students sample_platform sample_db
      (JObject [(''name'', JString ''Eli Roe''), (''age'', JNumber (Fin 21)),
                (''course'', JString ''Astrology'')]))) = [dana]"
proof -
  let ?b = "JObject [(''name'', JString ''Eli Roe''), (''age'', JNumber (Fin 21)),
                (''course'', JString ''Astrology'')]"
  have n: "\<not> name_rejected sample_platform (get_prop ?b ''name'')"
    by (simp add: name_rejected_def js_lt_def)
  have a: "\<not> age_rejected sample_platform (get_prop ?b ''age'')"
    by (simp add: age_rejected_def js_lt_def js_gt_def)
  have k: "get_prop ?b ''course'' = JString ''Astrology''" by simp
  have e: "''Astrology'' \<notin> set course_enum" by (simp add: course_enum_def)
  from post_students_course_outside_enum [OF n a k _ e, of sample_db]
  have "collection (snd (post_students sample_platform sample_db ?b)) = collection sample_db"
    by simp
  moreover have "fst (post_students sample_platform sample_db ?b)
    = \<lparr>statusCode = 400,
       body = ErrorBody
         ''Student validation failed: course: not a valid enum value for path `course`.''\<rparr>"
    by (simp add: post_students_def name_rejected_def age_rejected_def course_rejected_def
          js_lt_def js_gt_def Student_save_def course_enum_def complaint_def Let_def)
  ultimately show ?thesis by (simp add: sample_db_def)
qed

text \<open>
  Claim C10. The response of \<^verbatim>\<open>POST /students\<close> and the state it leaves depend on the
  request body only through its properties \<^verbatim>\<open>name\<close>, \<^verbatim>\<open>age\<close> and \<^verbatim>\<open>course\<close>: two
  bodies that agree on the three give the same response and the same state. The handler
  either makes no call or one save, whose argument holds these three values and nothing
  else of the body.
\<close>

theorem post_students_reads_three_fields:
  "(get_prop b1 ''name'' = get_prop b2 ''name'' \<and> get_prop b1 ''age'' = get_prop b2 ''age''
      \<and> get_prop b1 ''course'' = get_prop b2 ''course''
     \<longrightarrow> post_students p d b1 = post_students p d b2)
   \<and> (calls (snd (post_students p d b1)) = calls d
       \<or> calls (snd (post_students p d b1)) =
            calls d @ [Save \<lparr>name_arg = get_prop b1 ''name'',
                              age_arg = Number p (get_prop b1 ''age''),
                              course_arg = get_prop b1 ''course''\<rparr>])"
  by (auto simp: post_students_def Student_save_def called_def Let_def
           split: sum.splits option.splits prod.splits)

theorem post_students_reads_three_fields_witness:
  "post_students sample_platform sample_db
      (JObject [(''_id'', JString ''686f66da1801707c14d09e60''), (''name'', JString ''Eli Roe''),
                (''createdAt'', JNumber (Fin 0)), (''age'', JString ''21''),
                (''updatedAt'', JNumber (Fin 0)), (''course'', JString ''Medical Science''),
                (''admin'', JBool True)])
   = post_students sample_platform sample_db
      (JObject [(''name'', JString ''Eli Roe''), (''age'', JString ''21''),
                (''course'', JString ''Medical Science'')])"
  using post_students_reads_three_fields
     [of "JObject [(''_id'', JString ''686f66da1801707c14d09e60''), (''name'', JString ''Eli Roe''),
                (''createdAt'', JNumber (Fin 0)), (''age'', JString ''21''),
                (''updatedAt'', JNumber (Fin 0)), (''course'', JString ''Medical Science''),
                (''admin'', JBool True)]"
         "JObject [(''name'', JString ''Eli Roe''), (''age'', JString ''21''),
                (''course'', JString ''Medical Science'')]" sample_platform sample_db]
  by simp

section \<open>The read paths\<close>

text \<open>
  Claim C1. The claim asks that a fetch that fails or returns nothing is replaced by the
  three sample Students on \<^verbatim>\<open>GET /students\<close> as on \<^verbatim>\<open>GET /\<close>. On a connected
  store with an empty collection the fetch returns the empty list, and
  \<^verbatim>\<open>GET /students\<close> answers 200 with that empty list, not with the sample Students,
  while \<^verbatim>\<open>GET /\<close> on the same store answers with the three sample Students.
\<close>

theorem get_students_empty_collection:
  "Student_find empty_db = (Inr [], called Find empty_db)
   \<and> fst (get_students empty_db) = \<lparr>statusCode = 200, body = StudentList []\<rparr>
   \<and> fst (get_students empty_db) \<noteq> \<lparr>statusCode = 200, body = StudentList sampleStudents\<rparr>
   \<and> fst (get_root empty_db)
       = \<lparr>statusCode = 200,
          body = InfoBody \<lparr>message = welcome_message, status = ''Server is active'',
                   database = ''Connected '' @ check_mark, totalStudents = 3,
                   students = sampleStudents, endpoints = Some api_endpoints,
                   examplePayload = Some createStudent\<rparr>\<rparr>"
  by (simp add: get_students_def get_root_def root_try_def root_students_def Student_find_def
        outage_def empty_db_def called_def sampleStudents_def)

section \<open>Identifiers the store refuses\<close>

text \<open>
  Claim C2. The claim asks for 400 on an identifier that fails the store's format, on Get
  by id, Update and Delete alike. \<^verbatim>\<open>not-an-id\<close> fails the format; Get by id and
  Update answer 400 to it, \<^verbatim>\<open>DELETE /students/not-an-id\<close> answers 500.
\<close>

theorem delete_student_malformed_id:
  "castObjectId ''not-an-id'' = None
   \<and> fst (delete_student sample_db ''not-an-id'')
        = \<lparr>statusCode = 500, body = ErrorBody (message_of (CastError ''_id''))\<rparr>
   \<and> statusCode (fst (get_student_by_id sample_db ''not-an-id'')) = 400
   \<and> statusCode (fst (put_student sample_platform sample_db ''not-an-id'' (JObject []))) = 400"
  by (simp add: castObjectId_def delete_student_def Student_findByIdAndDelete_def
        get_student_by_id_def Student_findById_def put_student_def Student_findByIdAndUpdate_def)

section \<open>Get by id\<close>

text \<open>
  On a collaborator that is not connected, a well-formed identifier that no stored
  Student carries is answered 400 with the invalid-id message, not 404.
\<close>

theorem get_student_by_id_counterexample:
  "castObjectId ''686f66da1801707c14d09e60'' = Some ''686f66da1801707c14d09e60''
   \<and> find_doc ''686f66da1801707c14d09e60'' (collection (sample_db\<lparr>readyState := 0\<rparr>)) = None
   \<and> fst (get_student_by_id (sample_db\<lparr>readyState := 0\<rparr>) ''686f66da1801707c14d09e60'')
       = \<lparr>statusCode = 400, body = ErrorBody ''Invalid student ID''\<rparr>"
  by (simp add: castObjectId_sample get_student_by_id_def Student_findById_def outage_def
        sample_db_def dana_def)

text \<open>
  Claim C5, amended. \<^verbatim>\<open>GET /students/:id\<close> answers a malformed identifier with 400 and
  the invalid-id message. When the collaborator is reachable, it answers a well-formed
  identifier that matches no Student with 404 and one that matches a Student with 200 and
  exactly that Student. Whatever the collaborator does, the status is 200, 400 or 404,
  never 500, and the collection is left as it was.
\<close>

theorem get_student_by_id_cases:
  "(castObjectId i = None \<longrightarrow>
      fst (get_student_by_id d i) = \<lparr>statusCode = 400, body = ErrorBody ''Invalid student ID''\<rparr>)
   \<and> (castObjectId i = Some k \<and> reachable d \<and> find_doc k (collection d) = None \<longrightarrow>
      fst (get_student_by_id d i) = \<lparr>statusCode = 404, body = ErrorBody ''Student not found''\<rparr>)
   \<and> (castObjectId i = Some k \<and> reachable d \<and> find_doc k (collection d) = Some s \<longrightarrow>
      fst (get_student_by_id d i) = \<lparr>statusCode = 200, body = StudentDoc s\<rparr>)
   \<and> statusCode (fst (get_student_by_id d i)) \<in> {200, 400, 404}
   \<and> collection (snd (get_student_by_id d i)) = collection d"
  by (auto simp: get_student_by_id_def Student_findById_def called_def outage_None_iff
          split: option.splits dest: outage_None_iff [THEN iffD1])

theorem get_student_by_id_cases_witness:
  "fst (get_student_by_id sample_db ''not-an-id'')
     = \<lparr>statusCode = 400, body = ErrorBody ''Invalid student ID''\<rparr>
   \<and> fst (get_student_by_id sample_db ''686f66da1801707c14d09e60'')
     = \<lparr>statusCode = 404, body = ErrorBody ''Student not found''\<rparr>
   \<and> fst (get_student_by_id sample_db ''686f66da1801707c14d09e63'')
     = \<lparr>statusCode = 200, body = StudentDoc dana\<rparr>
   \<and> statusCode (fst (get_student_by_id (sample_db\<lparr>readyState := 0\<rparr>)
                       ''686f66da1801707c14d09e63'')) \<noteq> 500"
proof -
  have c1: "castObjectId ''not-an-id'' = None" by (simp add: castObjectId_def)
  have r: "reachable sample_db" by (simp add: reachable_def sample_db_def)
  have f1: "find_doc ''686f66da1801707c14d09e60'' (collection sample_db) = None"
    by (simp add: sample_db_def dana_def)
  have f2: "find_doc ''686f66da1801707c14d09e63'' (collection sample_db) = Some dana"
    by (simp add: sample_db_def dana_def)
  from c1 r f1 f2 castObjectId_sample castObjectId_dana
       get_student_by_id_cases [where i = "''not-an-id''" and d = sample_db]
       get_student_by_id_cases [where i = "''686f66da1801707c14d09e60''"
           and k = "''686f66da1801707c14d09e60''" and d = sample_db]
       get_student_by_id_cases [where i = "''686f66da1801707c14d09e63''"
           and k = "''686f66da1801707c14d09e63''" and d = sample_db and s = dana]
       get_student_by_id_cases [where i = "''686f66da1801707c14d09e63''"
           and d = "sample_db\<lparr>readyState := 0\<rparr>"]
  show ?thesis by auto
qed

section \<open>Update\<close>

text \<open>
  On a collaborator that is not connected, an update addressed to a well-formed identifier
  that no stored Student carries is answered 400, not 404.
\<close>

theorem put_student_counterexample:
  "castObjectId ''686f66da1801707c14d09e60'' = Some ''686f66da1801707c14d09e60''
   \<and> find_doc ''686f66da1801707c14d09e60'' (collection (sample_db\<lparr>readyState := 0\<rparr>)) = None
   \<and> statusCode (fst (put_student sample_platform (sample_db\<lparr>readyState := 0\<rparr>)
         ''686f66da1801707c14d09e60'' (JObject [(''age'', JNumber (Fin 25))]))) = 400"
  by (simp add: castObjectId_sample put_student_def Student_findByIdAndUpdate_def outage_def
        sample_db_def dana_def update_rejections_def update_name_def update_age_def
        update_course_def supplied_def rejection_def Let_def)

text \<open>
  Claim C7, amended. \<^verbatim>\<open>PUT /students/:id\<close> answers 400 with the collaborator's message
  when the identifier is malformed and when a supplied value of \<^verbatim>\<open>name\<close>, \<^verbatim>\<open>age\<close> or
  \<^verbatim>\<open>course\<close> is rejected by the collaborator's validation. Otherwise, with a reachable
  collaborator, a well-formed
  identifier that matches no Student is answered 404 and leaves the collection as it was,
  and one that matches a Student is answered 200 with the updated Student, which is the
  one now stored under the identifier: its identifier and creation time are unchanged,
  each of \<^verbatim>\<open>name\<close>, \<^verbatim>\<open>age\<close>, \<^verbatim>\<open>course\<close> that the update supplies is the cast of the
  supplied value, and each one it does not supply keeps its value.
\<close>

theorem put_student_cases:
  "(castObjectId i = None \<longrightarrow>
      fst (put_student p d i b)
        = \<lparr>statusCode = 400, body = ErrorBody (message_of (CastError ''_id''))\<rparr>)
   \<and> (castObjectId i = Some k \<and> update_rejections p b \<noteq> [] \<longrightarrow>
      fst (put_student p d i b)
        = \<lparr>statusCode = 400,
           body = ErrorBody (message_of (ValidationError ''Validation failed''
                                           (update_rejections p b)))\<rparr>)
   \<and> (castObjectId i = Some k \<and> update_rejections p b = [] \<and> reachable d
        \<and> find_doc k (collection d) = None \<longrightarrow>
      fst (put_student p d i b) = \<lparr>statusCode = 404, body = ErrorBody ''Student not found''\<rparr>
      \<and> collection (snd (put_student p d i b)) = collection d)
   \<and> (castObjectId i = Some k \<and> update_rejections p b = [] \<and> reachable d
        \<and> find_doc k (collection d) = Some s \<longrightarrow>
      (\<exists>s'. fst (put_student p d i b) = \<lparr>statusCode = 200, body = StudentDoc s'\<rparr>
         \<and> find_doc k (collection (snd (put_student p d i b))) = Some s'
         \<and> oid s' = oid s \<and> createdAt s' = createdAt s
         \<and> (get_prop b ''name'' = JUndefined \<longrightarrow> name s' = name s)
         \<and> (get_prop b ''name'' \<noteq> JUndefined \<longrightarrow>
               castString p (get_prop b ''name'') = Cast (name s'))
         \<and> (get_prop b ''age'' = JUndefined \<longrightarrow> age s' = age s)
         \<and> (get_prop b ''age'' \<noteq> JUndefined \<longrightarrow>
               castNumber p (get_prop b ''age'') = Cast (Fin (age s')))
         \<and> (get_prop b ''course'' = JUndefined \<longrightarrow> course s' = course s)
         \<and> (get_prop b ''course'' \<noteq> JUndefined \<longrightarrow>
               castString p (get_prop b ''course'') = Cast (course s'))))"
proof (intro conjI impI)
  assume "castObjectId i = None"
  then show "fst (put_student p d i b)
        = \<lparr>statusCode = 400, body = ErrorBody (message_of (CastError ''_id''))\<rparr>"
    by (simp add: put_student_def Student_findByIdAndUpdate_def Let_def)
next
  assume "castObjectId i = Some k \<and> update_rejections p b \<noteq> []"
  then show "fst (put_student p d i b)
        = \<lparr>statusCode = 400,
           body = ErrorBody (message_of (ValidationError ''Validation failed''
                                           (update_rejections p b)))\<rparr>"
    by (simp add: put_student_def Student_findByIdAndUpdate_def Let_def)
next
  assume h: "castObjectId i = Some k \<and> update_rejections p b = [] \<and> reachable d
        \<and> find_doc k (collection d) = None"
  then have "Student_findByIdAndUpdate p d i b = (Inr None, called (FindByIdAndUpdate i b) d)"
    by (simp add: Student_findByIdAndUpdate_def Let_def outage_None_iff [THEN iffD2])
  then show "fst (put_student p d i b) = \<lparr>statusCode = 404, body = ErrorBody ''Student not found''\<rparr>"
    and "collection (snd (put_student p d i b)) = collection d"
    by (simp_all add: put_student_def called_def)
next
  assume h: "castObjectId i = Some k \<and> update_rejections p b = [] \<and> reachable d
        \<and> find_doc k (collection d) = Some s"
  let ?s' = "s\<lparr>name := merged (update_name p b) (name s),
                age := merged (update_age p b) (age s),
                course := merged (update_course p b) (course s),
                updatedAt := Some (clock d)\<rparr>"
  from h have upd: "Student_findByIdAndUpdate p d i b
     = (Inr (Some ?s'),
        (called (FindByIdAndUpdate i b) d)
          \<lparr>collection := replace_doc k ?s' (collection d), clock := Suc (clock d)\<rparr>)"
    by (simp add: Student_findByIdAndUpdate_found)
  have resp: "fst (put_student p d i b) = \<lparr>statusCode = 200, body = StudentDoc ?s'\<rparr>"
    by (simp add: put_student_def upd)
  from h have "oid s = k" by (auto dest: find_doc_Some)
  then have "oid ?s' = k" by simp
  with h have "find_doc k (replace_doc k ?s' (collection d)) = Some ?s'"
    using find_doc_replace_doc [of k "collection d" s ?s'] by simp
  then have stored: "find_doc k (collection (snd (put_student p d i b))) = Some ?s'"
    by (simp add: put_student_def upd)
  from h have rej: "(\<forall>m. update_name p b \<noteq> Rejected m)" "(\<forall>m. update_age p b \<noteq> Rejected m)"
      "(\<forall>m. update_course p b \<noteq> Rejected m)"
    by (simp_all add: update_rejections_Nil)
  have flds: "(get_prop b ''name'' = JUndefined \<longrightarrow> name ?s' = name s)
         \<and> (get_prop b ''name'' \<noteq> JUndefined \<longrightarrow>
               castString p (get_prop b ''name'') = Cast (name ?s'))
         \<and> (get_prop b ''age'' = JUndefined \<longrightarrow> age ?s' = age s)
         \<and> (get_prop b ''age'' \<noteq> JUndefined \<longrightarrow>
               castNumber p (get_prop b ''age'') = Cast (Fin (age ?s')))
         \<and> (get_prop b ''course'' = JUndefined \<longrightarrow> course ?s' = course s)
         \<and> (get_prop b ''course'' \<noteq> JUndefined \<longrightarrow>
               castString p (get_prop b ''course'') = Cast (course ?s'))"
    using merged_name [OF rej(1), of "name s"] merged_age [OF rej(2), of "age s"]
          merged_course [OF rej(3), of "course s"]
    by simp
  have ids: "oid ?s' = oid s \<and> createdAt ?s' = createdAt s" by simp
  from resp stored ids flds
  show "\<exists>s'. fst (put_student p d i b) = \<lparr>statusCode = 200, body = StudentDoc s'\<rparr>
         \<and> find_doc k (collection (snd (put_student p d i b))) = Some s'
         \<and> oid s' = oid s \<and> createdAt s' = createdAt s
         \<and> (get_prop b ''name'' = JUndefined \<longrightarrow> name s' = name s)
         \<and> (get_prop b ''name'' \<noteq> JUndefined \<longrightarrow>
               castString p (get_prop b ''name'') = Cast (name s'))
         \<and> (get_prop b ''age'' = JUndefined \<longrightarrow> age s' = age s)
         \<and> (get_prop b ''age'' \<noteq> JUndefined \<longrightarrow>
               castNumber p (get_prop b ''age'') = Cast (Fin (age s')))
         \<and> (get_prop b ''course'' = JUndefined \<longrightarrow> course s' = course s)
         \<and> (get_prop b ''course'' \<noteq> JUndefined \<longrightarrow>
               castString p (get_prop b ''course'') = Cast (course s'))"
    by (intro exI [of _ ?s']) blast
qed

theorem put_student_cases_witness:
  "(\<exists>s'. fst (put_student sample_platform sample_db ''686F66DA1801707C14D09E63''
                 (JObject [(''age'', JNumber (Fin 25))]))
            = \<lparr>statusCode = 200, body = StudentDoc s'\<rparr>
         \<and> oid s' = oid dana \<and> name s' = name dana \<and> age s' = 25 \<and> course s' = course dana)
   \<and> fst (put_student sample_platform sample_db ''686f66da1801707c14d09e60''
                 (JObject [(''age'', JNumber (Fin 25))]))
        = \<lparr>statusCode = 404, body = ErrorBody ''Student not found''\<rparr>
   \<and> fst (put_student sample_platform sample_db ''not-an-id''
                 (JObject [(''age'', JNumber (Fin 25))]))
        = \<lparr>statusCode = 400, body = ErrorBody (message_of (CastError ''_id''))\<rparr>
   \<and> statusCode (fst (put_student sample_platform sample_db ''686f66da1801707c14d09e63''
                 (JObject [(''age'', JNumber (Fin 5))]))) = 400"
proof -
  let ?b = "JObject [(''age'', JNumber (Fin 25))]"
  let ?bad = "JObject [(''age'', JNumber (Fin 5))]"
  have ok: "update_rejections sample_platform ?b = []"
    by (simp add: update_rejections_def update_name_def update_age_def update_course_def
          supplied_def rejection_def)
  have bad: "update_rejections sample_platform ?bad \<noteq> []"
    by (simp add: update_rejections_def update_name_def update_age_def update_course_def
          supplied_def rejection_def)
  have props: "get_prop ?b ''name'' = JUndefined" "get_prop ?b ''age'' = JNumber (Fin 25)"
      "get_prop ?b ''course'' = JUndefined"
    by simp_all
  from put_student_cases [where i = "''686F66DA1801707C14D09E63''"
         and k = "''686f66da1801707c14d09e63''" and p = sample_platform and d = sample_db
         and b = ?b and s = dana]
       castObjectId_upper ok reachable_sample_db find_doc_sample_db(1)
  have c1: "\<exists>s'. fst (put_student sample_platform sample_db ''686F66DA1801707C14D09E63'' ?b)
            = \<lparr>statusCode = 200, body = StudentDoc s'\<rparr>
         \<and> oid s' = oid dana \<and> name s' = name dana \<and> age s' = 25 \<and> course s' = course dana"
    unfolding props by auto
  from put_student_cases [where i = "''686f66da1801707c14d09e60''"
         and k = "''686f66da1801707c14d09e60''" and p = sample_platform and d = sample_db
         and b = ?b]
       castObjectId_sample ok reachable_sample_db find_doc_sample_db(2)
  have c2: "fst (put_student sample_platform sample_db ''686f66da1801707c14d09e60'' ?b)
        = \<lparr>statusCode = 404, body = ErrorBody ''Student not found''\<rparr>"
    by simp
  from put_student_cases [where i = "''not-an-id''" and p = sample_platform and d = sample_db
         and b = ?b] castObjectId_malformed
  have c3: "fst (put_student sample_platform sample_db ''not-an-id'' ?b)
        = \<lparr>statusCode = 400, body = ErrorBody (message_of (CastError ''_id''))\<rparr>"
    by simp
  from put_student_cases [where i = "''686f66da1801707c14d09e63''"
         and k = "''686f66da1801707c14d09e63''" and p = sample_platform and d = sample_db
         and b = ?bad] castObjectId_dana bad
  have c4: "statusCode (fst (put_student sample_platform sample_db ''686f66da1801707c14d09e63''
                 ?bad)) = 400"
    by simp
  from c1 c2 c3 c4 show ?thesis by blast
qed

section \<open>Delete\<close>

text \<open>
  Claim C8. \<^verbatim>\<open>DELETE /students/:id\<close>, on a reachable collaborator: a well-formed
  identifier that matches no Student is answered 404 and the collection is left as it
  was; one that matches a Student is answered 200 with the message and the Student as it
  was stored, and the match is removed from the collection. When the stored identifiers
  are distinct, as the store keeps them, the collection afterwards is the one before
  without that Student, and a Get by id of the same identifier on the state after the
  delete is answered 404. When the collaborator fails, the answer is 500 with its message
  and the collection is left as it was; every call the collaborator rejects is answered
  500 with the message of the error.
\<close>

theorem delete_student_cases:
  "(castObjectId i = Some k \<and> reachable d \<and> find_doc k (collection d) = None \<longrightarrow>
      fst (delete_student d i) = \<lparr>statusCode = 404, body = ErrorBody ''Student not found''\<rparr>
      \<and> collection (snd (delete_student d i)) = collection d)
   \<and> (castObjectId i = Some k \<and> reachable d \<and> find_doc k (collection d) = Some s \<longrightarrow>
      fst (delete_student d i) = \<lparr>statusCode = 200, body = DeletedBody ''Student deleted'' s\<rparr>
      \<and> collection (snd (delete_student d i)) = remove_doc k (collection d)
      \<and> length (collection (snd (delete_student d i))) < length (collection d))
   \<and> (castObjectId i = Some k \<and> reachable d \<and> find_doc k (collection d) = Some s
        \<and> distinct (map oid (collection d)) \<longrightarrow>
      set (collection (snd (delete_student d i))) = set (collection d) - {s}
      \<and> fst (get_student_by_id (snd (delete_student d i)) i)
           = \<lparr>statusCode = 404, body = ErrorBody ''Student not found''\<rparr>)
   \<and> (castObjectId i = Some k \<and> outage d ''findOneAndDelete'' = Some e \<longrightarrow>
      fst (delete_student d i) = \<lparr>statusCode = 500, body = ErrorBody (message_of e)\<rparr>
      \<and> collection (snd (delete_student d i)) = collection d)
   \<and> (fst (Student_findByIdAndDelete d i) = Inl e \<longrightarrow>
      fst (delete_student d i) = \<lparr>statusCode = 500, body = ErrorBody (message_of e)\<rparr>)"
proof (intro conjI impI)
  assume h: "castObjectId i = Some k \<and> reachable d \<and> find_doc k (collection d) = None"
  then have "Student_findByIdAndDelete d i = (Inr None, called (FindByIdAndDelete i) d)"
    by (simp add: Student_findByIdAndDelete_def Let_def outage_None_iff [THEN iffD2])
  then show "fst (delete_student d i) = \<lparr>statusCode = 404, body = ErrorBody ''Student not found''\<rparr>"
    and "collection (snd (delete_student d i)) = collection d"
    by (simp_all add: delete_student_def called_def)
next
  assume h: "castObjectId i = Some k \<and> reachable d \<and> find_doc k (collection d) = Some s"
  then have del: "delete_student d i
      = (\<lparr>statusCode = 200, body = DeletedBody ''Student deleted'' s\<rparr>,
         (called (FindByIdAndDelete i) d)\<lparr>collection := remove_doc k (collection d)\<rparr>)"
    by (simp add: delete_student_def Student_findByIdAndDelete_found)
  show "fst (delete_student d i) = \<lparr>statusCode = 200, body = DeletedBody ''Student deleted'' s\<rparr>"
    by (simp add: del)
  show "collection (snd (delete_student d i)) = remove_doc k (collection d)"
    by (simp add: del)
  from h show "length (collection (snd (delete_student d i))) < length (collection d)"
    by (simp add: del length_remove_doc)
next
  assume h: "castObjectId i = Some k \<and> reachable d \<and> find_doc k (collection d) = Some s
        \<and> distinct (map oid (collection d))"
  let ?d' = "(called (FindByIdAndDelete i) d)\<lparr>collection := remove_doc k (collection d)\<rparr>"
  from h have del: "delete_student d i
      = (\<lparr>statusCode = 200, body = DeletedBody ''Student deleted'' s\<rparr>, ?d')"
    by (simp add: delete_student_def Student_findByIdAndDelete_found)
  from h show "set (collection (snd (delete_student d i))) = set (collection d) - {s}"
    by (simp add: del set_remove_doc)
  from h have r': "reachable ?d'" by (simp add: reachable_def called_def)
  from h have gone: "find_doc k (collection ?d') = None"
    by (simp add: find_doc_remove_doc)
  from h r' gone
  have "Student_findById ?d' i = (Inr None, called (FindById i) ?d')"
    by (simp add: Student_findById_def outage_None_iff [THEN iffD2])
  then show "fst (get_student_by_id (snd (delete_student d i)) i)
           = \<lparr>statusCode = 404, body = ErrorBody ''Student not found''\<rparr>"
    by (simp add: del get_student_by_id_def)
next
  assume h: "castObjectId i = Some k \<and> outage d ''findOneAndDelete'' = Some e"
  then have "Student_findByIdAndDelete d i = (Inl e, called (FindByIdAndDelete i) d)"
    by (simp add: Student_findByIdAndDelete_def Let_def)
  then show "fst (delete_student d i) = \<lparr>statusCode = 500, body = ErrorBody (message_of e)\<rparr>"
    and "collection (snd (delete_student d i)) = collection d"
    by (simp_all add: delete_student_def called_def)
next
  assume "fst (Student_findByIdAndDelete d i) = Inl e"
  then show "fst (delete_student d i) = \<lparr>statusCode = 500, body = ErrorBody (message_of e)\<rparr>"
    by (cases "Student_findByIdAndDelete d i") (simp add: delete_student_def)
qed

theorem delete_student_cases_witness:
  "fst (delete_student sample_db ''686f66da1801707c14d09e63'')
     = \<lparr>statusCode = 200, body = DeletedBody ''Student deleted'' dana\<rparr>
   \<and> collection (snd (delete_student sample_db ''686f66da1801707c14d09e63'')) = []
   \<and> fst (get_student_by_id (snd (delete_student sample_db ''686f66da1801707c14d09e63''))
            ''686f66da1801707c14d09e63'')
       = \<lparr>statusCode = 404, body = ErrorBody ''Student not found''\<rparr>
   \<and> fst (delete_student sample_db ''686f66da1801707c14d09e60'')
       = \<lparr>statusCode = 404, body = ErrorBody ''Student not found''\<rparr>
   \<and> statusCode (fst (delete_student (sample_db\<lparr>fault := Some ''connection reset''\<rparr>)
            ''686f66da1801707c14d09e63'')) = 500"
proof -
  have dist: "distinct (map oid (collection sample_db))" by (simp add: sample_db_def)
  have rm: "remove_doc ''686f66da1801707c14d09e63'' (collection sample_db) = []"
    by (simp add: sample_db_def dana_def)
  have out: "outage (sample_db\<lparr>fault := Some ''connection reset''\<rparr>) ''findOneAndDelete''
               = Some (DriverError ''connection reset'')"
    by (simp add: outage_def sample_db_def)
  from delete_student_cases [where i = "''686f66da1801707c14d09e63''"
         and k = "''686f66da1801707c14d09e63''" and d = sample_db and s = dana]
       castObjectId_dana reachable_sample_db find_doc_sample_db(1) dist rm
  have c1: "fst (delete_student sample_db ''686f66da1801707c14d09e63'')
     = \<lparr>statusCode = 200, body = DeletedBody ''Student deleted'' dana\<rparr>
   \<and> collection (snd (delete_student sample_db ''686f66da1801707c14d09e63'')) = []
   \<and> fst (get_student_by_id (snd (delete_student sample_db ''686f66da1801707c14d09e63''))
            ''686f66da1801707c14d09e63'')
       = \<lparr>statusCode = 404, body = ErrorBody ''Student not found''\<rparr>"
    by simp
  from delete_student_cases [where i = "''686f66da1801707c14d09e60''"
         and k = "''686f66da1801707c14d09e60''" and d = sample_db]
       castObjectId_sample reachable_sample_db find_doc_sample_db(2)
  have c2: "fst (delete_student sample_db ''686f66da1801707c14d09e60'')
       = \<lparr>statusCode = 404, body = ErrorBody ''Student not found''\<rparr>"
    by simp
  from delete_student_cases [where i = "''686f66da1801707c14d09e63''"
         and k = "''686f66da1801707c14d09e63''"
         and d = "sample_db\<lparr>fault := Some ''connection reset''\<rparr>"
         and e = "DriverError ''connection reset''"]
       castObjectId_dana out
  have c3: "statusCode (fst (delete_student (sample_db\<lparr>fault := Some ''connection reset''\<rparr>)
            ''686f66da1801707c14d09e63'')) = 500"
    by simp
  from c1 c2 c3 show ?thesis by blast
qed

section \<open>The aggregate-info endpoint\<close>

text \<open>
  When the fetch fails although the connection is up, \<^verbatim>\<open>GET /\<close> answers with the
  sample Students and reports the connection as connected.
\<close>

theorem get_root_fault_counterexample:
  "fst (Student_find (sample_db\<lparr>fault := Some ''not authorized''\<rparr>))
     = Inl (DriverError ''not authorized'')
   \<and> fst (get_root (sample_db\<lparr>fault := Some ''not authorized''\<rparr>))
     = \<lparr>statusCode = 200,
        body = InfoBody \<lparr>message = welcome_message, status = ''Server is active'',
                 database = ''Connected '' @ check_mark, totalStudents = 3,
                 students = sampleStudents, endpoints = Some api_endpoints,
                 examplePayload = Some createStudent\<rparr>\<rparr>
   \<and> ''Connected '' @ check_mark \<noteq> ''Disconnected '' @ cross_mark"
  by (simp add: get_root_def root_try_def root_students_def Student_find_def outage_def
        sample_db_def called_def sampleStudents_def)

text \<open>
  Claim C9, amended. \<^verbatim>\<open>GET /\<close> always answers 200 with a payload that holds the
  welcome message and the status text, the connection state read at the time of the
  request (connected exactly when \<^verbatim>\<open>readyState\<close> is 1), a total equal to the length of
  the list of Students it carries, that list (what the fetch returned, or the three sample
  Students when the fetch failed or returned nothing), the description of the operations
  and the example payload. In particular a collaborator that is not connected gives the
  three sample Students and the state disconnected.
\<close>

theorem get_root_payload:
  "\<exists>inf. fst (get_root d) = \<lparr>statusCode = 200, body = InfoBody inf\<rparr>
     \<and> message inf = welcome_message \<and> status inf = ''Server is active''
     \<and> database inf = (if readyState d = 1 then ''Connected '' @ check_mark
                        else ''Disconnected '' @ cross_mark)
     \<and> totalStudents inf = length (students inf)
     \<and> students inf = (case fst (Student_find d) of
                          Inr found \<Rightarrow> if found = [] then sampleStudents else found
                        | Inl err \<Rightarrow> sampleStudents)
     \<and> endpoints inf = Some api_endpoints \<and> examplePayload inf = Some createStudent
     \<and> (\<not> reachable d \<longrightarrow> students inf = sampleStudents)
     \<and> (readyState d \<noteq> 1 \<longrightarrow>
           students inf = sampleStudents \<and> totalStudents inf = 3
           \<and> database inf = ''Disconnected '' @ cross_mark)"
  by (auto simp: get_root_def root_try_def root_students_def Student_find_def outage_def
        called_def reachable_def sampleStudents_def split: option.splits)

theorem get_root_payload_witness:
  "\<exists>inf. fst (get_root (sample_db\<lparr>readyState := 0\<rparr>)) = \<lparr>statusCode = 200, body = InfoBody inf\<rparr>
     \<and> students inf = sampleStudents \<and> totalStudents inf = 3
     \<and> database inf = ''Disconnected '' @ cross_mark
     \<and> endpoints inf = Some api_endpoints \<and> examplePayload inf = Some createStudent"
  using get_root_payload [of "sample_db\<lparr>readyState := 0\<rparr>"]
  by auto

end
